theory Spec2Isabelle
  imports Complex_Main
begin

section \<open>Discrete-time identification of Burgers' equation (ide\_disc\_burgers.py)\<close>

text \<open>
  The development embeds the class \<open>PhysicsInformedNN\<close> of
  \<^verbatim>\<open>1d-burgers/ide_disc_burgers.py\<close>. Rank-2 tensors of \<open>tf.float32\<close> are modelled
  as matrices of real numbers (rounding is not modelled), with the shape rules of
  TensorFlow and NumPy written out: a shape disagreement is an error value.
  The reverse-mode differentiation of TensorFlow (\<open>tf.GradientTape\<close>) and the
  optimizer object are not part of the file; they are parameters of the
  functions that call them.
\<close>

subsection \<open>Errors\<close>

datatype error =
    InvalidArgumentError   \<comment> \<open>TensorFlow: incompatible shapes\<close>
  | ValueError             \<comment> \<open>NumPy or Keras: incompatible shapes, negative width\<close>
  | IndexError             \<comment> \<open>Python: list index out of range\<close>
  | ZeroDivisionError      \<comment> \<open>Python: integer modulo by zero\<close>

definition bindE :: "error + 'a \<Rightarrow> ('a \<Rightarrow> error + 'b) \<Rightarrow> error + 'b" where
  "bindE m f = (case m of Inl e \<Rightarrow> Inl e | Inr v \<Rightarrow> f v)"

subsection \<open>Rank-2 tensors\<close>

text \<open>
  A tensor of shape \<open>(n, m)\<close> is the list of its \<open>n\<close> rows together with the
  column count \<open>m\<close>, so that the shape \<open>(0, m)\<close> of an empty batch is kept.
\<close>

record tensor =
  ncols :: nat
  rows :: "real list list"

definition nrows :: "tensor \<Rightarrow> nat" where
  "nrows A = length (rows A)"

definition entry :: "tensor \<Rightarrow> nat \<Rightarrow> nat \<Rightarrow> real" where
  "entry A i j = rows A ! i ! j"

definition tabulate :: "nat \<Rightarrow> nat \<Rightarrow> (nat \<Rightarrow> nat \<Rightarrow> real) \<Rightarrow> tensor" where
  "tabulate n m f = \<lparr>ncols = m, rows = map (\<lambda>i. map (f i) [0..<m]) [0..<n]\<rparr>"

definition has_shape :: "nat \<Rightarrow> nat \<Rightarrow> tensor \<Rightarrow> bool" where
  "has_shape n m A \<longleftrightarrow>
     nrows A = n \<and> ncols A = m \<and> list_all (\<lambda>r. length r = m) (rows A)"

text \<open>\<open>tf.ones([n, m])\<close>.\<close>

definition tf_ones :: "nat \<Rightarrow> nat \<Rightarrow> tensor" where
  "tf_ones n m = tabulate n m (\<lambda>i j. 1)"

text \<open>Multiplication by a scalar (a Python float, or a variable of shape \<open>[1]\<close>).\<close>

definition smul :: "real \<Rightarrow> tensor \<Rightarrow> tensor" where
  "smul c A = A\<lparr>rows := map (map (\<lambda>v. c * v)) (rows A)\<rparr>"

text \<open>
  Broadcasting of a binary elementwise operation: two dimensions are
  compatible when they are equal or one of them is 1; the dimension of size 1 is
  then read at index 0 throughout.
\<close>

definition bdim :: "nat \<Rightarrow> nat \<Rightarrow> nat option" where
  "bdim a b = (if a = b then Some a else if a = 1 then Some b
               else if b = 1 then Some a else None)"

definition bidx :: "nat \<Rightarrow> nat \<Rightarrow> nat" where
  "bidx d i = (if d = 1 then 0 else i)"

definition broadcast ::
  "error \<Rightarrow> (real \<Rightarrow> real \<Rightarrow> real) \<Rightarrow> tensor \<Rightarrow> tensor \<Rightarrow> error + tensor" where
  "broadcast e f A B =
     (case (bdim (nrows A) (nrows B), bdim (ncols A) (ncols B)) of
        (Some n, Some m) \<Rightarrow>
          Inr (tabulate n m (\<lambda>i j.
            f (entry A (bidx (nrows A) i) (bidx (ncols A) j))
              (entry B (bidx (nrows B) i) (bidx (ncols B) j))))
      | _ \<Rightarrow> Inl e)"

definition tf_add :: "tensor \<Rightarrow> tensor \<Rightarrow> error + tensor" where
  "tf_add = broadcast InvalidArgumentError (+)"

definition tf_sub :: "tensor \<Rightarrow> tensor \<Rightarrow> error + tensor" where
  "tf_sub = broadcast InvalidArgumentError (-)"

definition tf_mul :: "tensor \<Rightarrow> tensor \<Rightarrow> error + tensor" where
  "tf_mul = broadcast InvalidArgumentError (*)"

definition np_sub :: "tensor \<Rightarrow> tensor \<Rightarrow> error + tensor" where
  "np_sub = broadcast ValueError (-)"

text \<open>\<open>A.T\<close> of NumPy.\<close>

definition np_T :: "tensor \<Rightarrow> tensor" where
  "np_T A = tabulate (ncols A) (nrows A) (\<lambda>i j. entry A j i)"

text \<open>\<open>tf.matmul(A, B)\<close>: the inner dimensions have to agree.\<close>

definition tf_matmul :: "tensor \<Rightarrow> tensor \<Rightarrow> error + tensor" where
  "tf_matmul A B =
     (if ncols A = nrows B
      then Inr (tabulate (nrows A) (ncols B)
                 (\<lambda>i j. sum_list (map (\<lambda>k. entry A i k * entry B k j) [0..<ncols A])))
      else Inl InvalidArgumentError)"

text \<open>\<open>tf.reduce_sum\<close> and \<open>tf.square\<close>.\<close>

definition tf_reduce_sum :: "tensor \<Rightarrow> real" where
  "tf_reduce_sum A = sum_list (map sum_list (rows A))"

definition tf_square :: "tensor \<Rightarrow> tensor" where
  "tf_square A = A\<lparr>rows := map (map (\<lambda>v. v * v)) (rows A)\<rparr>"

definition tf_tanh :: "tensor \<Rightarrow> tensor" where
  "tf_tanh A = A\<lparr>rows := map (map tanh) (rows A)\<rparr>"

subsection \<open>The function approximator: a Keras \<open>Sequential\<close> of \<open>Dense\<close> layers\<close>

record dense =
  kernel :: tensor        \<comment> \<open>shape (inputs, units)\<close>
  bias :: "real list"     \<comment> \<open>shape (units)\<close>

text \<open>
  \<open>Dense(width, activation=tf.nn.tanh)\<close> applied to a batch: the rows of the
  batch times the kernel, plus the bias on every row, then the activation.
\<close>

definition dense_affine :: "dense \<Rightarrow> tensor \<Rightarrow> error + tensor" where
  "dense_affine L x =
     bindE (tf_matmul x (kernel L)) (\<lambda>z.
     tf_add z \<lparr>ncols = length (bias L), rows = [bias L]\<rparr>)"

definition dense_call :: "dense \<Rightarrow> tensor \<Rightarrow> error + tensor" where
  "dense_call L x = bindE (dense_affine L x) (\<lambda>a. Inr (tf_tanh a))"

fun model_call :: "dense list \<Rightarrow> tensor \<Rightarrow> error + tensor" where
  "model_call [] x = Inr x"
| "model_call (L # Ls) x = bindE (dense_call L x) (model_call Ls)"

subsection \<open>The model object\<close>

text \<open>
  The fields set by the constructor. The logger is an external collaborator: its
  calls appear as events of the training trace below. \<open>'o\<close> is the state of the
  optimizer object.
\<close>

record 'o PhysicsInformedNN =
  lb :: "real list"
  ub :: "real list"
  dt :: real
  q :: int
  IRK_alpha :: tensor
  IRK_beta :: tensor
  U_model :: "dense list"
  optimizer :: 'o

text \<open>
  The fields that exist only once \<open>fit\<close> has run. \<open>lambda_1\<close> and \<open>lambda_2\<close> are
  variables of shape \<open>[1]\<close>, represented by their single component.
\<close>

record 'o fitted = "'o PhysicsInformedNN" +
  x_0 :: tensor
  u_0 :: tensor
  x_1 :: tensor
  u_1 :: tensor
  lambda_1 :: real
  lambda_2 :: real
  dummy_x_0 :: tensor
  dummy_x_1 :: tensor

text \<open>
  The constructor. The kernels are drawn by the \<open>glorot_normal\<close> initializer: the
  parameter \<open>glorot l i j\<close> is the value drawn for entry \<open>(i, j)\<close> of the kernel of
  layer \<open>l\<close>; the biases start at zero. Every layer of \<open>layers[1:]\<close> is a
  \<open>Dense\<close> layer with the \<open>tanh\<close> activation.
\<close>

fun add_layers :: "(nat \<Rightarrow> nat \<Rightarrow> nat \<Rightarrow> real) \<Rightarrow> nat \<Rightarrow> nat \<Rightarrow> nat list \<Rightarrow> dense list" where
  "add_layers glorot l fan_in [] = []"
| "add_layers glorot l fan_in (width # ws) =
     \<lparr>kernel = tabulate fan_in width (glorot l), bias = replicate width 0\<rparr>
       # add_layers glorot (Suc l) width ws"

definition init ::
  "(nat \<Rightarrow> nat \<Rightarrow> nat \<Rightarrow> real) \<Rightarrow> nat list \<Rightarrow> 'o \<Rightarrow> real \<Rightarrow> real list \<Rightarrow> real list \<Rightarrow> int
     \<Rightarrow> tensor \<Rightarrow> tensor \<Rightarrow> error + 'o PhysicsInformedNN" where
  "init glorot layers opt dt' lb' ub' q' alpha beta =
     (case layers of
        [] \<Rightarrow> Inl IndexError
      | input_width # widths \<Rightarrow>
          Inr \<lparr>lb = lb', ub = ub', dt = dt', q = max q' 1,
               IRK_alpha = alpha, IRK_beta = beta,
               U_model = add_layers glorot 0 input_width widths,
               optimizer = opt\<rparr>)"

text \<open>
  The script: \<open>layers = [1, 50, 50, 50, 0]\<close>, then \<open>layers[-1] = q\<close> with the
  stage count returned by \<open>prep_data\<close>.
\<close>

definition layers :: "nat list" where
  "layers = [1, 50, 50, 50, 0]"

definition script_layers :: "nat \<Rightarrow> nat list" where
  "script_layers q' = layers[length layers - 1 := q']"

subsection \<open>The derivative engine\<close>

text \<open>
  \<open>deriv net x dummy\<close> stands for what the persistent gradient tape returns for
  the network \<open>net\<close> at the points \<open>x\<close> with the seed \<open>dummy\<close>: the pair
  \<open>(U_x, U_xx)\<close>, or an error. \<open>__autograd\<close> overwrites its argument \<open>U\<close> with
  the network's output inside the tape.
\<close>

type_synonym deriv = "dense list \<Rightarrow> tensor \<Rightarrow> tensor \<Rightarrow> error + tensor \<times> tensor"

definition autograd ::
  "deriv \<Rightarrow> ('o, 'z) fitted_scheme \<Rightarrow> tensor \<Rightarrow> tensor \<Rightarrow> tensor \<Rightarrow> error + tensor \<times> tensor" where
  "autograd D self U x dummy = D (U_model self) x dummy"

subsection \<open>The stage predictors\<close>

definition U_0_model :: "deriv \<Rightarrow> ('o, 'z) fitted_scheme \<Rightarrow> tensor \<Rightarrow> error + tensor" where
  "U_0_model D self x =
     bindE (model_call (U_model self) x) (\<lambda>U.
     bindE (autograd D self U x (dummy_x_0 self)) (\<lambda>(U_x, U_xx).
       let l1 = lambda_1 self;
           l2 = exp (lambda_2 self)
       in bindE (tf_mul (smul l1 U) U_x) (\<lambda>a.
          bindE (tf_sub a (smul l2 U_xx)) (\<lambda>N.
          bindE (tf_matmul N (np_T (IRK_alpha self))) (\<lambda>M.
          tf_add U (smul (dt self) M))))))"

definition U_1_model :: "deriv \<Rightarrow> ('o, 'z) fitted_scheme \<Rightarrow> tensor \<Rightarrow> error + tensor" where
  "U_1_model D self x =
     bindE (model_call (U_model self) x) (\<lambda>U.
     bindE (autograd D self U x (dummy_x_1 self)) (\<lambda>(U_x, U_xx).
       let l1 = lambda_1 self;
           l2 = exp (lambda_2 self)
       in bindE (tf_mul (smul (- l1) U) U_x) (\<lambda>a.
          bindE (tf_add a (smul l2 U_xx)) (\<lambda>N.
          bindE (np_sub (IRK_beta self) (IRK_alpha self)) (\<lambda>B.
          bindE (tf_matmul N (np_T B)) (\<lambda>M.
          tf_add U (smul (dt self) M)))))))"

subsection \<open>Loss and gradient\<close>

text \<open>
  \<open>__loss\<close>: the assignment \<open>u_1_pred = 0.0\<close> is overwritten at once and has no
  effect.
\<close>

definition loss ::
  "deriv \<Rightarrow> ('o, 'z) fitted_scheme \<Rightarrow> tensor \<Rightarrow> tensor \<Rightarrow> tensor \<Rightarrow> tensor \<Rightarrow> error + real" where
  "loss D self x0 u0 x1 u1 =
     bindE (U_0_model D self x0) (\<lambda>u_0_pred.
     bindE (U_1_model D self x1) (\<lambda>u_1_pred.
     bindE (tf_sub u_0_pred u0) (\<lambda>d0.
     bindE (tf_sub u_1_pred u1) (\<lambda>d1.
     Inr (tf_reduce_sum (tf_square d0) + tf_reduce_sum (tf_square d1))))))"

text \<open>
  The trainable variables are named by reference. Keras lists the variables of a
  \<open>Sequential\<close> layer by layer, the kernel before the bias;
  \<open>__wrap_training_variables\<close> extends a fresh copy of that list.
\<close>

datatype var = Kernel nat | Bias nat | Lambda_1 | Lambda_2

definition trainable_variables :: "dense list \<Rightarrow> var list" where
  "trainable_variables net = concat (map (\<lambda>l. [Kernel l, Bias l]) [0..<length net])"

definition wrap_training_variables :: "('o, 'z) fitted_scheme \<Rightarrow> var list" where
  "wrap_training_variables self = trainable_variables (U_model self) @ [Lambda_1, Lambda_2]"

text \<open>
  \<open>tape_gradient f self v\<close> stands for the gradient that the tape of \<open>__grad\<close>
  returns for the recorded computation \<open>f\<close> at the state \<open>self\<close> with respect to the
  variable \<open>v\<close>; \<open>tape.gradient\<close> returns one gradient for each source it is given,
  in their order.
\<close>

definition grad ::
  "deriv \<Rightarrow> ((('o, 'z) fitted_scheme \<Rightarrow> error + real) \<Rightarrow> ('o, 'z) fitted_scheme \<Rightarrow> var \<Rightarrow> 'g)
     \<Rightarrow> ('o, 'z) fitted_scheme \<Rightarrow> tensor \<Rightarrow> tensor \<Rightarrow> tensor \<Rightarrow> tensor
     \<Rightarrow> error + real \<times> 'g list" where
  "grad D tape_gradient self x0 u0 x1 u1 =
     bindE (loss D self x0 u0 x1 u1) (\<lambda>loss_value.
     Inr (loss_value,
          map (tape_gradient (\<lambda>s. loss D s x0 u0 x1 u1) self) (wrap_training_variables self)))"

subsection \<open>Parameter query and diagnostics\<close>

text \<open>
  \<open>get_params\<close> returns \<open>lambda_1\<close> and \<open>exp lambda_2\<close>; its flag \<open>numpy\<close> only
  selects between the tensors and their single components. \<open>error\<close> takes the
  two recovered values.
\<close>

definition get_params :: "('o, 'z) fitted_scheme \<Rightarrow> real \<times> real" where
  "get_params self = (let l1 = lambda_1 self; l2 = exp (lambda_2 self) in (l1, l2))"

definition error :: "real \<Rightarrow> real \<Rightarrow> real" where
  "error x_star u_star =
     (let error_lambda_1 = \<bar>x_star - 1.0\<bar> / 1.0 * 100;
          nu = 0.01 / pi;
          error_lambda_2 = \<bar>u_star - nu\<bar> / nu * 100
      in error_lambda_1)"

definition predict :: "deriv \<Rightarrow> ('o, 'z) fitted_scheme \<Rightarrow> tensor \<Rightarrow> error + tensor \<times> tensor" where
  "predict D self x_star =
     bindE (U_0_model D self x_star) (\<lambda>U_0_star.
     bindE (U_1_model D self x_star) (\<lambda>U_1_star.
     Inr (U_0_star, U_1_star)))"

subsection \<open>The training driver\<close>

text \<open>
  What a run of \<open>fit\<close> does to the outside, in order: the calls of the logger,
  each call of \<open>__grad\<close> with the data it is given, and each call of
  \<open>optimizer.apply_gradients\<close> with the variables it is given.
\<close>

datatype event =
    Log_train_start
  | is_Grad_call: Grad_call tensor tensor tensor tensor
  | is_Apply_gradients: Apply_gradients "var list"
  | is_Log_train_epoch: Log_train_epoch int real real real
  | Log_train_end int

text \<open>
  \<open>step\<close> stands for the update rule of the optimizer: from its own state, the
  pairs of gradient and variable, and the values of the variables, it gives its
  new state and the new values.
\<close>

definition apply_gradients ::
  "('o \<Rightarrow> ('g \<times> var) list \<Rightarrow> dense list \<times> real \<times> real \<Rightarrow> 'o \<times> dense list \<times> real \<times> real)
     \<Rightarrow> ('g \<times> var) list \<Rightarrow> ('o, 'z) fitted_scheme \<Rightarrow> ('o, 'z) fitted_scheme" where
  "apply_gradients step gv self =
     (case step (optimizer self) gv (U_model self, lambda_1 self, lambda_2 self) of
        (opt, net, l1, l2) \<Rightarrow>
          self\<lparr>optimizer := opt, U_model := net, lambda_1 := l1, lambda_2 := l2\<rparr>)"

fun train ::
  "deriv \<Rightarrow> ((('o, 'z) fitted_scheme \<Rightarrow> error + real) \<Rightarrow> ('o, 'z) fitted_scheme \<Rightarrow> var \<Rightarrow> 'g)
     \<Rightarrow> ('o \<Rightarrow> ('g \<times> var) list \<Rightarrow> dense list \<times> real \<times> real \<Rightarrow> 'o \<times> dense list \<times> real \<times> real)
     \<Rightarrow> int \<Rightarrow> int list \<Rightarrow> ('o, 'z) fitted_scheme \<times> event list
     \<Rightarrow> error + ('o, 'z) fitted_scheme \<times> event list" where
  "train D tape_gradient step log_epochs [] st = Inr st"
| "train D tape_gradient step log_epochs (epoch # es) (self, tr) =
     bindE (grad D tape_gradient self (x_0 self) (u_0 self) (x_1 self) (u_1 self))
       (\<lambda>(loss_value, grads).
          let vars = wrap_training_variables self;
              self' = apply_gradients step (zip grads vars) self;
              tr' = tr @ [Grad_call (x_0 self) (u_0 self) (x_1 self) (u_1 self),
                          Apply_gradients (map snd (zip grads vars))]
          in if log_epochs = 0 then Inl ZeroDivisionError
             else if epoch mod log_epochs = 0
             then (case get_params self' of (l1, l2) \<Rightarrow>
                     train D tape_gradient step log_epochs es
                       (self', tr' @ [Log_train_epoch epoch loss_value l1 l2]))
             else train D tape_gradient step log_epochs es (self', tr'))"

text \<open>
  The first part of \<open>fit\<close>: the tensors of the data, the two lambda variables and
  the dummy seeds, one row for each point and \<open>self.q\<close> columns.
\<close>

definition fit_setup ::
  "('o, 'z) PhysicsInformedNN_scheme \<Rightarrow> tensor \<Rightarrow> tensor \<Rightarrow> tensor \<Rightarrow> tensor \<Rightarrow> 'o fitted" where
  "fit_setup self x0 u0 x1 u1 =
     \<lparr>lb = lb self, ub = ub self, dt = dt self, q = q self,
      IRK_alpha = IRK_alpha self, IRK_beta = IRK_beta self,
      U_model = U_model self, optimizer = optimizer self,
      x_0 = x0, u_0 = u0, x_1 = x1, u_1 = u1,
      lambda_1 = 0.0, lambda_2 = - 6.0,
      dummy_x_0 = tf_ones (nrows x0) (nat (q self)),
      dummy_x_1 = tf_ones (nrows x1) (nat (q self))\<rparr>"

text \<open>
  \<open>fit\<close>: the setup, the training loop over \<open>range(epochs)\<close>, and the final call
  of the logger. It returns the trained object and the trace of the run.
\<close>

definition fit ::
  "deriv \<Rightarrow> (('o fitted \<Rightarrow> error + real) \<Rightarrow> 'o fitted \<Rightarrow> var \<Rightarrow> 'g)
     \<Rightarrow> ('o \<Rightarrow> ('g \<times> var) list \<Rightarrow> dense list \<times> real \<times> real \<Rightarrow> 'o \<times> dense list \<times> real \<times> real)
     \<Rightarrow> ('o, 'z) PhysicsInformedNN_scheme \<Rightarrow> tensor \<Rightarrow> tensor \<Rightarrow> tensor \<Rightarrow> tensor
     \<Rightarrow> int \<Rightarrow> int \<Rightarrow> error + 'o fitted \<times> event list" where
  "fit D tape_gradient step self x0 u0 x1 u1 epochs log_epochs =
     bindE (train D tape_gradient step log_epochs (map int [0..<nat epochs])
              (fit_setup self x0 u0 x1 u1, [Log_train_start]))
       (\<lambda>(self', tr). Inr (self', tr @ [Log_train_end epochs]))"

subsection \<open>Shapes of the network, and the approximator of the specification\<close>

text \<open>
  \<open>well_shaped d ws net\<close>: the network takes inputs of width \<open>d\<close> and its layers
  have the widths \<open>ws\<close>, every kernel and bias of the matching shape. Keras
  creates the variables with these shapes and an optimizer keeps them.
\<close>

fun well_shaped :: "nat \<Rightarrow> nat list \<Rightarrow> dense list \<Rightarrow> bool" where
  "well_shaped d [] [] = True"
| "well_shaped d (w # ws) (L # Ls) =
     (has_shape d w (kernel L) \<and> length (bias L) = w \<and> well_shaped w ws Ls)"
| "well_shaped d ws net = False"

text \<open>
  The approximator in the words of the specification, for comparison with
  \<open>model_call\<close>: the hyperbolic tangent in the hidden layers and no activation
  on the output layer, whose raw affine result is returned.
\<close>

fun spec_linear_output :: "dense list \<Rightarrow> tensor \<Rightarrow> error + tensor" where
  "spec_linear_output [] x = Inr x"
| "spec_linear_output [L] x = dense_affine L x"
| "spec_linear_output (L # Ls) x = bindE (dense_call L x) (spec_linear_output Ls)"

subsection \<open>The training driver of the specification\<close>

text \<open>
  One epoch in the words of the specification, for comparison with \<open>train\<close>:
  one gradient computation over the full data, with respect to all weights of
  the approximator followed by \<open>lambda_1\<close> and \<open>lambda_2\<close>, and one update of
  the optimizer applied to the weights and both lambdas together.
\<close>

definition spec_sources :: "dense list \<Rightarrow> var list" where
  "spec_sources net =
     concat (map (\<lambda>l. [Kernel l, Bias l]) [0..<length net]) @ [Lambda_1, Lambda_2]"

definition spec_epoch ::
  "deriv \<Rightarrow> (('o fitted \<Rightarrow> error + real) \<Rightarrow> 'o fitted \<Rightarrow> var \<Rightarrow> 'g)
     \<Rightarrow> ('o \<Rightarrow> ('g \<times> var) list \<Rightarrow> dense list \<times> real \<times> real \<Rightarrow> 'o \<times> dense list \<times> real \<times> real)
     \<Rightarrow> tensor \<Rightarrow> tensor \<Rightarrow> tensor \<Rightarrow> tensor \<Rightarrow> 'o fitted \<Rightarrow> 'o fitted" where
  "spec_epoch D tape_gradient step x0 u0 x1 u1 s =
     (case step (optimizer s)
             (map (\<lambda>v. (tape_gradient (\<lambda>r. loss D r x0 u0 x1 u1) s v, v))
                (spec_sources (U_model s)))
             (U_model s, lambda_1 s, lambda_2 s) of
        (opt, net, l1, l2) \<Rightarrow>
          s\<lparr>optimizer := opt, U_model := net, lambda_1 := l1, lambda_2 := l2\<rparr>)"

text \<open>
  What epoch number \<open>epoch\<close>, started in the state \<open>s\<close>, shows to the outside: the
  gradient computation, the update, and every \<open>log_epochs\<close> epochs a progress
  report with the epoch index, the loss value and the estimates \<open>lambda_1\<close> and
  \<open>exp lambda_2\<close> after the update.
\<close>

definition spec_segment ::
  "deriv \<Rightarrow> (('o fitted \<Rightarrow> error + real) \<Rightarrow> 'o fitted \<Rightarrow> var \<Rightarrow> 'g)
     \<Rightarrow> ('o \<Rightarrow> ('g \<times> var) list \<Rightarrow> dense list \<times> real \<times> real \<Rightarrow> 'o \<times> dense list \<times> real \<times> real)
     \<Rightarrow> tensor \<Rightarrow> tensor \<Rightarrow> tensor \<Rightarrow> tensor \<Rightarrow> int \<Rightarrow> int \<Rightarrow> 'o fitted \<Rightarrow> event list" where
  "spec_segment D tape_gradient step x0 u0 x1 u1 log_epochs epoch s =
     [Grad_call x0 u0 x1 u1, Apply_gradients (spec_sources (U_model s))]
     @ (if epoch mod log_epochs = 0
        then [Log_train_epoch epoch (projr (loss D s x0 u0 x1 u1))
                (lambda_1 (spec_epoch D tape_gradient step x0 u0 x1 u1 s))
                (exp (lambda_2 (spec_epoch D tape_gradient step x0 u0 x1 u1 s)))]
        else [])"

subsection \<open>A small instance\<close>

text \<open>
  Two points, two stages, and the network without hidden or output layer
  (\<open>layers = [2]\<close>), whose output is its input. The instance is used to run the
  theorems below on concrete numbers.
\<close>

definition demo_x :: tensor where
  "demo_x = \<lparr>ncols = 2, rows = [[1, 2], [3, 4]]\<rparr>"

definition demo_u :: tensor where
  "demo_u = \<lparr>ncols = 1, rows = [[1], [0]]\<rparr>"

definition demo_U_x :: tensor where
  "demo_U_x = \<lparr>ncols = 2, rows = [[1, 0], [0, 1]]\<rparr>"

definition demo_U_xx :: tensor where
  "demo_U_xx = \<lparr>ncols = 2, rows = [[0, 1], [1, 0]]\<rparr>"

definition demo_deriv :: deriv where
  "demo_deriv net x dummy = Inr (demo_U_x, demo_U_xx)"

definition demo_alpha :: tensor where
  "demo_alpha = \<lparr>ncols = 2, rows = [[1, 0], [1, 1]]\<rparr>"

definition demo_beta :: tensor where
  "demo_beta = \<lparr>ncols = 2, rows = [[2, 1]]\<rparr>"

definition demo_net :: "dense list" where
  "demo_net = [\<lparr>kernel = \<lparr>ncols = 1, rows = [[1]]\<rparr>, bias = [0]\<rparr>]"

text \<open>
  A derivative engine with vanishing second derivative, an update rule that
  moves the two lambdas to 1 and 0 from their initial values, and the object that
  the constructor builds for \<open>layers = [2]\<close> and the stage count \<open>- 3\<close>.
\<close>

definition demo_flat :: deriv where
  "demo_flat net x dummy = Inr (demo_U_x, \<lparr>ncols = 2, rows = [[0, 0], [0, 0]]\<rparr>)"

definition demo_step ::
  "unit \<Rightarrow> (var \<times> var) list \<Rightarrow> dense list \<times> real \<times> real \<Rightarrow> unit \<times> dense list \<times> real \<times> real" where
  "demo_step opt gv = (\<lambda>(net, l1, l2). (opt, net, l1 + 1, l2 + 6))"

definition demo_model :: "unit PhysicsInformedNN" where
  "demo_model =
     \<lparr>lb = [- 1], ub = [1], dt = 2, q = 1,
      IRK_alpha = demo_alpha, IRK_beta = demo_beta,
      U_model = [], optimizer = ()\<rparr>"

text \<open>
  A training run on two points with the network \<open>demo_net\<close>: the update rule
  counts its calls, raises every bias by 1, adds the number of pairs it is given
  to \<open>lambda_1\<close> and adds 6 to \<open>lambda_2\<close>.
\<close>

definition demo_points :: tensor where
  "demo_points = \<lparr>ncols = 1, rows = [[0], [0]]\<rparr>"

definition demo_obs :: tensor where
  "demo_obs = \<lparr>ncols = 1, rows = [[1], [2]]\<rparr>"

definition demo_line :: deriv where
  "demo_line net x dummy =
     Inr (\<lparr>ncols = 1, rows = [[1], [1]]\<rparr>, \<lparr>ncols = 1, rows = [[0], [0]]\<rparr>)"

definition demo_update ::
  "nat \<Rightarrow> (var \<times> var) list \<Rightarrow> dense list \<times> real \<times> real \<Rightarrow> nat \<times> dense list \<times> real \<times> real" where
  "demo_update opt gv =
     (\<lambda>(net, l1, l2).
        (Suc opt, map (\<lambda>L. L\<lparr>bias := map (\<lambda>b. b + 1) (bias L)\<rparr>) net,
         l1 + real (length gv), l2 + 6))"

definition demo_trainee :: "nat PhysicsInformedNN" where
  "demo_trainee =
     \<lparr>lb = [- 1], ub = [1], dt = 2, q = 1,
      IRK_alpha = \<lparr>ncols = 1, rows = [[1]]\<rparr>, IRK_beta = \<lparr>ncols = 1, rows = [[2]]\<rparr>,
      U_model = demo_net, optimizer = 0\<rparr>"

definition demo_self :: "unit fitted" where
  "demo_self =
     \<lparr>lb = [- 1], ub = [1], dt = 2, q = 2,
      IRK_alpha = demo_alpha, IRK_beta = demo_beta,
      U_model = [], optimizer = (),
      x_0 = demo_x, u_0 = demo_u, x_1 = demo_x, u_1 = demo_u,
      lambda_1 = 2, lambda_2 = 0,
      dummy_x_0 = tf_ones 2 2, dummy_x_1 = tf_ones 2 2\<rparr>"

section \<open>Properties\<close>

subsection \<open>Tensors given by their entries\<close>

lemma nrows_tabulate [simp]: "nrows (tabulate n m f) = n"
  by (simp add: nrows_def tabulate_def)

lemma ncols_tabulate [simp]: "ncols (tabulate n m f) = m"
  by (simp add: tabulate_def)

lemma entry_tabulate [simp]: "i < n \<Longrightarrow> j < m \<Longrightarrow> entry (tabulate n m f) i j = f i j"
  by (simp add: entry_def tabulate_def)

lemma has_shape_tabulate [simp]: "has_shape n m (tabulate n m f)"
  by (simp add: has_shape_def tabulate_def nrows_def list_all_iff)

lemma tabulate_cong:
  "(\<And>i j. i < n \<Longrightarrow> j < m \<Longrightarrow> f i j = g i j) \<Longrightarrow> tabulate n m f = tabulate n m g"
  by (simp add: tabulate_def)

lemma has_shape_eq_tabulate:
  assumes "has_shape n m A"
  shows "A = tabulate n m (entry A)"
proof -
  have len: "length (rows A) = n" and row: "\<And>i. i < n \<Longrightarrow> length (rows A ! i) = m"
    using assms by (auto simp: has_shape_def nrows_def list_all_length)
  have "rows A = map (\<lambda>i. map (entry A i) [0..<m]) [0..<n]"
  proof (rule nth_equalityI)
    show "length (rows A) = length (map (\<lambda>i. map (entry A i) [0..<m]) [0..<n])"
      by (simp add: len)
  next
    fix i assume "i < length (rows A)"
    then have i: "i < n" by (simp add: len)
    have "rows A ! i = map (entry A i) [0..<m]"
      by (rule nth_equalityI) (simp_all add: row i entry_def)
    then show "rows A ! i = map (\<lambda>i. map (entry A i) [0..<m]) [0..<n] ! i"
      by (simp add: i)
  qed
  moreover have "ncols A = m" using assms by (simp add: has_shape_def)
  ultimately show ?thesis
    by (simp add: tabulate_def)
qed

lemma smul_tabulate: "smul c (tabulate n m f) = tabulate n m (\<lambda>i j. c * f i j)"
  by (simp add: smul_def tabulate_def comp_def)

lemma tf_tanh_tabulate: "tf_tanh (tabulate n m f) = tabulate n m (\<lambda>i j. tanh (f i j))"
  by (simp add: tf_tanh_def tabulate_def comp_def)

lemma tf_square_tabulate: "tf_square (tabulate n m f) = tabulate n m (\<lambda>i j. f i j * f i j)"
  by (simp add: tf_square_def tabulate_def comp_def)

lemma broadcast_same:
  "broadcast e f (tabulate n m a) (tabulate n m b) = Inr (tabulate n m (\<lambda>i j. f (a i j) (b i j)))"
  by (auto simp: broadcast_def bdim_def bidx_def intro!: tabulate_cong)

lemma tf_matmul_tabulate:
  "tf_matmul (tabulate n k a) (tabulate k m b)
     = Inr (tabulate n m (\<lambda>i j. \<Sum>l<k. a i l * b l j))"
proof -
  have "sum_list (map (\<lambda>l. entry (tabulate n k a) i l * entry (tabulate k m b) l j) [0..<k])
          = (\<Sum>l<k. a i l * b l j)" if "i < n" "j < m" for i j
    using that by (simp add: interv_sum_list_conv_sum_set_nat atLeast0LessThan)
  then show ?thesis
    by (auto simp: tf_matmul_def intro!: tabulate_cong)
qed

lemma np_T_tabulate: "np_T (tabulate n m a) = tabulate m n (\<lambda>i j. a j i)"
  by (auto simp: np_T_def intro!: tabulate_cong)

lemma bindE_Inr: "bindE (Inr v) f = f v"
  by (simp add: bindE_def)

lemma bindE_Inl: "bindE (Inl e) f = Inl e"
  by (simp add: bindE_def)

text \<open>Unfolding rules that evaluate the tensor operations on concrete instances.\<close>

lemmas tensor_eval = has_shape_def nrows_def entry_def tabulate_def tf_ones_def
  eval_nat_numeral upt_rec

lemmas demo_defs = demo_x_def demo_u_def demo_U_x_def demo_U_xx_def demo_deriv_def
  demo_alpha_def demo_beta_def demo_self_def demo_net_def demo_flat_def demo_step_def
  demo_model_def demo_points_def demo_obs_def demo_line_def demo_update_def demo_trainee_def

subsection \<open>The stage predictor of slice 0\<close>

lemma U_0_model_tabulate:
  assumes "model_call (U_model self) x = Inr (tabulate n m u)"
      and "D (U_model self) x (dummy_x_0 self) = Inr (tabulate n m ux, tabulate n m uxx)"
      and "IRK_alpha self = tabulate m m a"
  shows "U_0_model D self x =
           Inr (tabulate n m (\<lambda>i j. u i j + dt self *
                  (\<Sum>k<m. (lambda_1 self * u i k * ux i k - exp (lambda_2 self) * uxx i k) * a j k)))"
  using assms
  by (simp add: U_0_model_def autograd_def bindE_def Let_def tf_mul_def tf_sub_def tf_add_def
      smul_tabulate broadcast_same tf_matmul_tabulate np_T_tabulate)




subsection \<open>The stage predictor of slice 1\<close>

lemma broadcast_onto_left:
  assumes "r = n \<or> r = 1" and "c = m \<or> c = 1"
  shows "broadcast e f (tabulate n m a) (tabulate r c b)
           = Inr (tabulate n m (\<lambda>i j. f (a i j) (b (bidx r i) (bidx c j))))"
  using assms
  by (auto simp: broadcast_def bdim_def bidx_def intro!: tabulate_cong)

lemma broadcast_onto_right:
  assumes "r = n \<or> r = 1" and "c = m \<or> c = 1"
  shows "broadcast e f (tabulate r c b) (tabulate n m a)
           = Inr (tabulate n m (\<lambda>i j. f (b (bidx r i) (bidx c j)) (a i j)))"
  using assms
  by (auto simp: broadcast_def bdim_def bidx_def intro!: tabulate_cong)

lemma U_1_model_tabulate:
  assumes "model_call (U_model self) x = Inr (tabulate n m u)"
      and "D (U_model self) x (dummy_x_1 self) = Inr (tabulate n m ux, tabulate n m uxx)"
      and "IRK_alpha self = tabulate m m a"
      and "IRK_beta self = tabulate r m b" and "r = m \<or> r = 1"
  shows "U_1_model D self x =
           Inr (tabulate n m (\<lambda>i j. u i j + dt self *
                  (\<Sum>k<m. (- lambda_1 self * u i k * ux i k + exp (lambda_2 self) * uxx i k)
                           * (b (bidx r j) k - a j k))))"
proof -
  have B: "np_sub (IRK_beta self) (IRK_alpha self)
             = Inr (tabulate m m (\<lambda>i j. b (bidx r i) j - a i j))"
    using assms(5) unfolding np_sub_def assms(3,4)
    by (subst broadcast_onto_right [where c = m]) (auto simp: bidx_def intro!: tabulate_cong)
  show ?thesis
    using assms(1,2)
    by (simp add: U_1_model_def autograd_def bindE_def Let_def tf_mul_def tf_add_def B
        smul_tabulate broadcast_same tf_matmul_tabulate np_T_tabulate)
qed



subsection \<open>The predictors without advection, as the diffusion vanishes\<close>

lemma vanishing_diffusion_limit:
  fixes u d :: real and c a :: "nat \<Rightarrow> real"
  shows "((\<lambda>l2. u + d * (\<Sum>k<m. (s * exp l2 * c k) * a k)) \<longlongrightarrow> u) at_bot"
proof -
  have "((\<lambda>l2. u + d * (\<Sum>k<m. (s * exp l2 * c k) * a k))
           \<longlongrightarrow> u + d * (\<Sum>k<m. (s * 0 * c k) * a k)) at_bot"
    by (intro tendsto_intros exp_at_bot)
  then show ?thesis by simp
qed



subsection \<open>Loss and gradient\<close>

lemma tf_reduce_sum_tabulate:
  "tf_reduce_sum (tabulate n m f) = (\<Sum>i<n. \<Sum>j<m. f i j)"
  by (simp add: tf_reduce_sum_def tabulate_def comp_def interv_sum_list_conv_sum_set_nat
      atLeast0LessThan)

lemma squared_difference_sum:
  assumes "has_shape n m P" and "has_shape n c u" and "c = m \<or> c = 1"
  shows "bindE (tf_sub P u) (\<lambda>d. Inr (tf_reduce_sum (tf_square d)))
           = Inr (\<Sum>i<n. \<Sum>j<m. (entry P i j - entry u i (bidx c j))\<^sup>2)"
proof -
  have "tf_sub (tabulate n m (entry P)) (tabulate n c (entry u))
          = Inr (tabulate n m (\<lambda>i j. entry P i j - entry u (bidx n i) (bidx c j)))"
    unfolding tf_sub_def using assms(3) by (intro broadcast_onto_left) simp_all
  also have "tabulate n m (\<lambda>i j. entry P i j - entry u (bidx n i) (bidx c j))
          = tabulate n m (\<lambda>i j. entry P i j - entry u i (bidx c j))"
    by (rule tabulate_cong) (auto simp: bidx_def)
  finally have "tf_sub P u = Inr (tabulate n m (\<lambda>i j. entry P i j - entry u i (bidx c j)))"
    using has_shape_eq_tabulate [OF assms(1)] has_shape_eq_tabulate [OF assms(2)] by simp
  then show ?thesis
    by (simp add: bindE_def tf_square_tabulate tf_reduce_sum_tabulate power2_eq_square)
qed

lemma loss_bind:
  "loss D self x0 u0 x1 u1 =
     bindE (U_0_model D self x0) (\<lambda>P0. bindE (U_1_model D self x1) (\<lambda>P1.
       bindE (bindE (tf_sub P0 u0) (\<lambda>d. Inr (tf_reduce_sum (tf_square d)))) (\<lambda>a.
       bindE (bindE (tf_sub P1 u1) (\<lambda>d. Inr (tf_reduce_sum (tf_square d)))) (\<lambda>b.
       Inr (a + b)))))"
  by (simp add: loss_def bindE_def split: sum.splits)

text \<open>
  Claim C3. When the two predictions \<open>P0\<close> and \<open>P1\<close> exist and each observed tensor
  has the shape of its prediction (or is one column, which TensorFlow repeats for
  every stage), the gradient operation returns the sum over all entries of
  \<open>(P0 - u0)\<^sup>2\<close> plus the sum over all entries of \<open>(P1 - u1)\<^sup>2\<close>, together with one
  gradient of that loss for each source, the sources being the kernel and bias of
  every layer in order, followed by \<open>lambda_1\<close> and \<open>lambda_2\<close>.
\<close>

theorem grad_loss_value_and_sources:
  assumes "U_0_model D self x0 = Inr P0" and "U_1_model D self x1 = Inr P1"
      and "has_shape n0 m0 P0" and "has_shape n0 c0 u0" and "c0 = m0 \<or> c0 = 1"
      and "has_shape n1 m1 P1" and "has_shape n1 c1 u1" and "c1 = m1 \<or> c1 = 1"
  shows "grad D tape_gradient self x0 u0 x1 u1 =
           Inr ((\<Sum>i<n0. \<Sum>j<m0. (entry P0 i j - entry u0 i (bidx c0 j))\<^sup>2)
                + (\<Sum>i<n1. \<Sum>j<m1. (entry P1 i j - entry u1 i (bidx c1 j))\<^sup>2),
                map (tape_gradient (\<lambda>s. loss D s x0 u0 x1 u1) self)
                  (concat (map (\<lambda>l. [Kernel l, Bias l]) [0..<length (U_model self)])
                   @ [Lambda_1, Lambda_2]))"
proof -
  have "loss D self x0 u0 x1 u1 =
          Inr ((\<Sum>i<n0. \<Sum>j<m0. (entry P0 i j - entry u0 i (bidx c0 j))\<^sup>2)
               + (\<Sum>i<n1. \<Sum>j<m1. (entry P1 i j - entry u1 i (bidx c1 j))\<^sup>2))"
    by (simp add: loss_bind assms(1,2) bindE_Inr
        squared_difference_sum [OF assms(3,4,5)] squared_difference_sum [OF assms(6,7,8)])
  then show ?thesis
    by (simp add: grad_def bindE_def wrap_training_variables_def trainable_variables_def)
qed

theorem grad_loss_value_and_sources_witness:
  "U_0_model demo_deriv demo_self demo_x = Inr \<lparr>ncols = 2, rows = [[5, 4], [1, 18]]\<rparr>
   \<and> U_1_model demo_deriv demo_self demo_x = Inr \<lparr>ncols = 2, rows = [[- 1, - 2], [- 11, 6]]\<rparr>
   \<and> has_shape 2 2 \<lparr>ncols = 2, rows = [[5, 4], [1, 18]]\<rparr>
   \<and> has_shape 2 2 \<lparr>ncols = 2, rows = [[- 1, - 2], [- 11, 6]]\<rparr>
   \<and> has_shape 2 1 demo_u
   \<and> grad demo_deriv (\<lambda>f s v. v) demo_self demo_x demo_u demo_x demo_u
       = Inr (520, [Lambda_1, Lambda_2])"
proof -
  have h: "U_0_model demo_deriv demo_self demo_x = Inr \<lparr>ncols = 2, rows = [[5, 4], [1, 18]]\<rparr>"
    "U_1_model demo_deriv demo_self demo_x = Inr \<lparr>ncols = 2, rows = [[- 1, - 2], [- 11, 6]]\<rparr>"
    "has_shape 2 2 \<lparr>ncols = 2, rows = [[5, 4], [1, 18]]\<rparr>"
    "has_shape 2 2 \<lparr>ncols = 2, rows = [[- 1, - 2], [- 11, 6]]\<rparr>"
    "has_shape 2 1 demo_u"
    by (simp_all add: demo_defs tensor_eval U_0_model_def U_1_model_def autograd_def bindE_def
        tf_mul_def tf_sub_def tf_add_def np_sub_def broadcast_def bdim_def bidx_def smul_def
        tf_matmul_def np_T_def)
  have "U_model demo_self = []"
    by (simp add: demo_defs)
  with h grad_loss_value_and_sources
    [where D = demo_deriv and self = demo_self and ?x0.0 = demo_x and ?x1.0 = demo_x
       and ?u0.0 = demo_u and ?u1.0 = demo_u
       and ?P0.0 = "\<lparr>ncols = 2, rows = [[5, 4], [1, 18]]\<rparr>"
       and ?P1.0 = "\<lparr>ncols = 2, rows = [[- 1, - 2], [- 11, 6]]\<rparr>"
       and ?n0.0 = 2 and ?m0.0 = 2 and ?c0.0 = 1 and ?n1.0 = 2 and ?m1.0 = 2 and ?c1.0 = 1
       and tape_gradient = "\<lambda>f s v. v"]
  show ?thesis
    by (simp add: demo_u_def tensor_eval bidx_def)
qed

subsection \<open>The function approximator\<close>

lemma bias_row_tabulate:
  "\<lparr>ncols = length b, rows = [b]\<rparr> = tabulate 1 (length b) (\<lambda>i j. b ! j)"
  by (simp add: tabulate_def map_nth)

lemma dense_affine_tabulate:
  assumes "kernel L = tabulate d w kf" and "length (bias L) = w"
  shows "dense_affine L (tabulate n d xf)
           = Inr (tabulate n w (\<lambda>i j. (\<Sum>l<d. xf i l * kf l j) + bias L ! j))"
proof -
  have "tf_add (tabulate n w (\<lambda>i j. \<Sum>l<d. xf i l * kf l j))
               (tabulate 1 w (\<lambda>i j. bias L ! j))
          = Inr (tabulate n w (\<lambda>i j. (\<Sum>l<d. xf i l * kf l j) + bias L ! bidx w j))"
    unfolding tf_add_def
    by (subst broadcast_onto_left) (auto simp: bidx_def intro!: tabulate_cong)
  also have "tabulate n w (\<lambda>i j. (\<Sum>l<d. xf i l * kf l j) + bias L ! bidx w j)
          = tabulate n w (\<lambda>i j. (\<Sum>l<d. xf i l * kf l j) + bias L ! j)"
    by (rule tabulate_cong) (auto simp: bidx_def)
  finally show ?thesis
    using assms bias_row_tabulate [of "bias L"]
    by (simp add: dense_affine_def tf_matmul_tabulate bindE_Inr)
qed

lemma dense_call_shape:
  assumes "has_shape d w (kernel L)" and "length (bias L) = w" and "has_shape n d x"
  shows "\<exists>U. dense_call L x = Inr U \<and> has_shape n w U"
proof -
  have "dense_affine L (tabulate n d (entry x))
          = Inr (tabulate n w (\<lambda>i j. (\<Sum>l<d. entry x i l * entry (kernel L) l j) + bias L ! j))"
    using has_shape_eq_tabulate [OF assms(1)] assms(2) by (rule dense_affine_tabulate)
  then show ?thesis
    using has_shape_eq_tabulate [OF assms(3)]
    by (simp add: dense_call_def bindE_Inr tf_tanh_tabulate)
qed

lemma model_call_shape:
  "well_shaped d ws net \<Longrightarrow> has_shape n d x
     \<Longrightarrow> \<exists>U. model_call net x = Inr U \<and> has_shape n (last (d # ws)) U"
proof (induction d ws net arbitrary: x rule: well_shaped.induct)
  case (1 d)
  then show ?case by simp
next
  case (2 d w ws L Ls)
  from 2(2) have k: "has_shape d w (kernel L)" "length (bias L) = w" "well_shaped w ws Ls"
    by simp_all
  from dense_call_shape [OF k(1,2) 2(3)]
  obtain h where h: "dense_call L x = Inr h" "has_shape n w h" by blast
  from 2(1) [OF k(3) h(2)] show ?case
    by (simp add: h(1) bindE_Inr)
qed simp_all

lemma add_layers_well_shaped: "well_shaped d ws (add_layers glorot l d ws)"
  by (induction ws arbitrary: d l) simp_all

lemma script_layers_eq: "script_layers q' = [1, 50, 50, 50, q']"
  by (simp add: script_layers_def layers_def)

text \<open>
  Claim C6, as the code has it. The script stores the stage count itself in the
  last position of \<open>layers\<close>, so the network built by the constructor, and every
  network with variables of the same shapes, maps a batch of shape \<open>(n, 1)\<close> to a
  tensor of shape \<open>(n, q)\<close>.
\<close>

theorem approximator_output_width:
  assumes "init glorot (script_layers q') opt dt' lb' ub' (int q') alpha beta = Inr m"
      and "has_shape n 1 x"
  shows "well_shaped 1 [50, 50, 50, q'] (U_model m)
       \<and> (\<forall>net. well_shaped 1 [50, 50, 50, q'] net
             \<longrightarrow> (\<exists>U. model_call net x = Inr U \<and> has_shape n q' U))"
proof -
  have "U_model m = add_layers glorot 0 1 [50, 50, 50, q']"
    using assms(1) by (auto simp: init_def script_layers_eq)
  then have "well_shaped 1 [50, 50, 50, q'] (U_model m)"
    by (simp only: add_layers_well_shaped)
  moreover have "\<exists>U. model_call net x = Inr U \<and> has_shape n q' U"
    if "well_shaped 1 [50, 50, 50, q'] net" for net
    using model_call_shape [OF that assms(2)] by simp
  ultimately show ?thesis by blast
qed

theorem approximator_output_width_witness:
  "init (\<lambda>l i j. 0) (script_layers 2) () 1 [- 1] [1] (int 2) demo_alpha demo_beta
     = Inr \<lparr>lb = [- 1], ub = [1], dt = 1, q = 2, IRK_alpha = demo_alpha, IRK_beta = demo_beta,
            U_model = add_layers (\<lambda>l i j. 0) 0 1 [50, 50, 50, 2], optimizer = ()\<rparr>
   \<and> has_shape 1 1 \<lparr>ncols = 1, rows = [[0]]\<rparr>
   \<and> well_shaped 1 [50, 50, 50, 2] (add_layers (\<lambda>l i j. 0) 0 1 [50, 50, 50, 2])
   \<and> (\<exists>U. model_call (add_layers (\<lambda>l i j. 0) 0 1 [50, 50, 50, 2])
               \<lparr>ncols = 1, rows = [[0]]\<rparr> = Inr U \<and> has_shape 1 2 U)"
proof -
  have h: "init (\<lambda>l i j. 0) (script_layers 2) () 1 [- 1] [1] (int 2) demo_alpha demo_beta
     = Inr \<lparr>lb = [- 1], ub = [1], dt = 1, q = 2, IRK_alpha = demo_alpha, IRK_beta = demo_beta,
            U_model = add_layers (\<lambda>l i j. 0) 0 1 [50, 50, 50, 2], optimizer = ()\<rparr>"
    "has_shape 1 1 \<lparr>ncols = 1, rows = [[0]]\<rparr>"
    by (simp_all add: init_def script_layers_eq has_shape_def nrows_def)
  from approximator_output_width [OF h]
  have w: "well_shaped 1 [50, 50, 50, 2] (add_layers (\<lambda>l i j. 0) 0 1 [50, 50, 50, 2])"
    and a: "\<forall>net. well_shaped 1 [50, 50, 50, 2] net
              \<longrightarrow> (\<exists>U. model_call net \<lparr>ncols = 1, rows = [[0]]\<rparr> = Inr U \<and> has_shape 1 2 U)"
    by simp_all
  from a w have "\<exists>U. model_call (add_layers (\<lambda>l i j. 0) 0 1 [50, 50, 50, 2])
                       \<lparr>ncols = 1, rows = [[0]]\<rparr> = Inr U \<and> has_shape 1 2 U"
    by blast
  with h w show ?thesis by blast
qed

text \<open>
  Claim C6 as stated fails: with the stage count 2 the network built by the
  script returns one row of 2 columns for one point, not of \<open>2 + 1\<close> columns.
\<close>

theorem approximator_output_width_counterexample:
  "\<not> has_shape 1 (2 + 1)
       (projr (model_call
          (U_model (projr (init (\<lambda>l i j. 0) (script_layers 2) () 1 [- 1] [1] 2
                             demo_alpha demo_beta)))
          \<lparr>ncols = 1, rows = [[0]]\<rparr>))"
proof -
  have net: "U_model (projr (init (\<lambda>l i j. 0) (script_layers 2) () 1 [- 1] [1] 2
                               demo_alpha demo_beta))
               = add_layers (\<lambda>l i j. 0) 0 1 [50, 50, 50, 2]"
    by (simp add: init_def script_layers_eq)
  have x: "has_shape 1 1 \<lparr>ncols = 1, rows = [[0]]\<rparr>"
    by (simp add: has_shape_def nrows_def)
  have "well_shaped 1 [50, 50, 50, 2] (add_layers (\<lambda>l i j. 0) 0 1 [50, 50, 50, 2])"
    by (rule add_layers_well_shaped)
  from model_call_shape [OF this x]
  obtain U where U: "model_call (add_layers (\<lambda>l i j. 0) 0 1 [50, 50, 50, 2])
                       \<lparr>ncols = 1, rows = [[0]]\<rparr> = Inr U" "has_shape 1 2 U"
    by auto
  from U(2) have "\<not> has_shape 1 (2 + 1) U"
    by (simp add: has_shape_def)
  then show ?thesis
    unfolding net U(1) sum.sel .
qed

lemma bindE_assoc: "bindE (bindE m f) g = bindE m (\<lambda>v. bindE (f v) g)"
  by (simp add: bindE_def split: sum.splits)

lemma bindE_return: "bindE m Inr = m"
  by (simp add: bindE_def split: sum.splits)

lemma model_call_tanh_of_affine:
  "net \<noteq> [] \<Longrightarrow> model_call net x = bindE (spec_linear_output net x) (\<lambda>z. Inr (tf_tanh z))"
proof (induction net x rule: spec_linear_output.induct)
  case (1 x)
  then show ?case by simp
next
  case (2 L x)
  have "model_call [] = Inr" by (rule ext) simp
  then show ?case by (simp add: dense_call_def bindE_return)
next
  case (3 L L' Ls x)
  have "model_call (L' # Ls) = (\<lambda>h. bindE (spec_linear_output (L' # Ls) h) (\<lambda>z. Inr (tf_tanh z)))"
    by (rule ext) (rule 3, simp)
  then show ?case
    by (simp add: bindE_assoc)
qed

text \<open>
  Claim C5, as the code has it. Every \<open>Dense\<close> layer is created with the \<open>tanh\<close>
  activation, the last one too: for every input, the output of a network with
  at least one layer is the hyperbolic tangent of the raw affine result of its
  last layer (an error of the layers is passed on unchanged).
\<close>

theorem output_layer_applies_tanh:
  assumes "net \<noteq> []"
  shows "model_call net x = bindE (spec_linear_output net x) (\<lambda>z. Inr (tf_tanh z))"
  using assms by (rule model_call_tanh_of_affine)

theorem output_layer_applies_tanh_witness:
  "demo_net \<noteq> []
   \<and> spec_linear_output demo_net \<lparr>ncols = 1, rows = [[1]]\<rparr> = Inr \<lparr>ncols = 1, rows = [[1]]\<rparr>
   \<and> model_call demo_net \<lparr>ncols = 1, rows = [[1]]\<rparr> = Inr \<lparr>ncols = 1, rows = [[tanh 1]]\<rparr>"
proof -
  have s: "spec_linear_output demo_net \<lparr>ncols = 1, rows = [[1]]\<rparr>
             = Inr \<lparr>ncols = 1, rows = [[1]]\<rparr>"
    by (simp add: demo_net_def dense_affine_def tf_matmul_def tf_add_def broadcast_def
        bdim_def bidx_def bindE_def tensor_eval)
  have n: "demo_net \<noteq> []" by (simp add: demo_net_def)
  have m: "model_call demo_net \<lparr>ncols = 1, rows = [[1]]\<rparr> = Inr \<lparr>ncols = 1, rows = [[tanh 1]]\<rparr>"
    unfolding output_layer_applies_tanh [OF n, of "\<lparr>ncols = 1, rows = [[1]]\<rparr>"] s
    by (simp add: bindE_Inr tf_tanh_def)
  from n s m show ?thesis by blast
qed

text \<open>
  Claim C5 as stated fails: the network of one layer with kernel 1 and bias 0
  maps the point 1 to \<open>tanh 1\<close>, while the raw affine result of that layer is 1.
\<close>

theorem output_layer_applies_tanh_counterexample:
  "model_call demo_net \<lparr>ncols = 1, rows = [[1]]\<rparr>
     \<noteq> spec_linear_output demo_net \<lparr>ncols = 1, rows = [[1]]\<rparr>"
proof -
  have "tanh (1 :: real) \<noteq> 1"
    using tanh_real_lt_1 [of 1] by simp
  then show ?thesis
    by (simp add: demo_net_def dense_call_def dense_affine_def tf_matmul_def tf_add_def
        broadcast_def bdim_def bidx_def bindE_def tf_tanh_def tensor_eval)
qed

subsection \<open>The diagnostic error metric\<close>

text \<open>
  Claim C8. At the recovered values \<open>lambda_1 = 1\<close> and \<open>exp lambda_2 = 0\<close> the
  relative errors are 0 percent and 100 percent; \<open>error\<close> computes both and
  returns the first alone, so its result is the same for every second argument.
\<close>

theorem error_returns_first_only:
  "error 1 0 = 0 \<and> error 1 0 = error 1 (0.01 / pi) \<and> error x_star u_star = \<bar>x_star - 1\<bar> * 100"
  by (simp add: error_def Let_def)

subsection \<open>The stage count\<close>

lemma apply_gradients_fields:
  "q (apply_gradients step gv s) = q s"
  "x_0 (apply_gradients step gv s) = x_0 s"
  "u_0 (apply_gradients step gv s) = u_0 s"
  "x_1 (apply_gradients step gv s) = x_1 s"
  "u_1 (apply_gradients step gv s) = u_1 s"
  "dummy_x_0 (apply_gradients step gv s) = dummy_x_0 s"
  "dummy_x_1 (apply_gradients step gv s) = dummy_x_1 s"
  "dt (apply_gradients step gv s) = dt s"
  "IRK_alpha (apply_gradients step gv s) = IRK_alpha s"
  "IRK_beta (apply_gradients step gv s) = IRK_beta s"
  by (simp_all add: apply_gradients_def split: prod.splits)

lemma train_fields:
  "train D G S K es (s, tr) = Inr (s', tr')
     \<Longrightarrow> q s' = q s \<and> dummy_x_0 s' = dummy_x_0 s \<and> dummy_x_1 s' = dummy_x_1 s
       \<and> x_0 s' = x_0 s \<and> u_0 s' = u_0 s \<and> x_1 s' = x_1 s \<and> u_1 s' = u_1 s"
proof (induction es arbitrary: s tr)
  case Nil
  then show ?case by simp
next
  case (Cons e es)
  from Cons.prems show ?case
    by (auto simp: bindE_def Let_def apply_gradients_fields
        split: sum.splits prod.splits if_splits dest!: Cons.IH)
qed

text \<open>
  Claim C10. Whatever stage count the constructor is given, the stored one is
  \<open>max q 1\<close>, at least 1; \<open>fit\<close> gives both dummy seeds that many columns (one row
  for each point) and leaves the stored stage count as it is, as does every
  update of the optimizer.
\<close>

theorem stage_count_clamped:
  assumes "init glorot layers' opt dt' lb' ub' q' alpha beta = Inr m"
      and "fit D tape_gradient step m x0 u0 x1 u1 epochs log_epochs = Inr (self, tr)"
  shows "q m = max q' 1 \<and> 1 \<le> q m \<and> q self = q m
       \<and> dummy_x_0 self = tf_ones (nrows x0) (nat (max q' 1))
       \<and> dummy_x_1 self = tf_ones (nrows x1) (nat (max q' 1))
       \<and> q (apply_gradients step gv self) = q m"
proof -
  have m: "q m = max q' 1"
    using assms(1) by (auto simp: init_def split: list.splits)
  from assms(2) obtain tr' where
    "train D tape_gradient step log_epochs (map int [0..<nat epochs])
       (fit_setup m x0 u0 x1 u1, [Log_train_start]) = Inr (self, tr')"
    by (auto simp: fit_def bindE_def split: sum.splits)
  from train_fields [OF this]
  have "q self = q m" "dummy_x_0 self = tf_ones (nrows x0) (nat (q m))"
    "dummy_x_1 self = tf_ones (nrows x1) (nat (q m))"
    by (simp_all add: fit_setup_def)
  with m show ?thesis
    by (simp add: apply_gradients_fields)
qed

lemma demo_fit_one_epoch:
  "fit demo_flat (\<lambda>f s v. v) demo_step demo_model demo_x demo_u demo_x demo_u 1 50
     = Inr ((fit_setup demo_model demo_x demo_u demo_x demo_u)\<lparr>lambda_1 := 1, lambda_2 := 0\<rparr>,
            [Log_train_start, Grad_call demo_x demo_u demo_x demo_u,
             Apply_gradients [Lambda_1, Lambda_2], Log_train_epoch 0 52 1 1, Log_train_end 1])"
  by (simp add: fit_def fit_setup_def grad_def loss_def U_0_model_def U_1_model_def
      autograd_def bindE_def get_params_def apply_gradients_def wrap_training_variables_def
      trainable_variables_def tf_mul_def tf_sub_def tf_add_def np_sub_def broadcast_def
      bdim_def bidx_def smul_def tf_matmul_def np_T_def tf_square_def tf_reduce_sum_def
      demo_defs tensor_eval)

theorem stage_count_clamped_witness:
  "init (\<lambda>l i j. 0) [2] () 2 [- 1] [1] (- 3) demo_alpha demo_beta = Inr demo_model
   \<and> fit demo_flat (\<lambda>f s v. v) demo_step demo_model demo_x demo_u demo_x demo_u 1 50
       = Inr ((fit_setup demo_model demo_x demo_u demo_x demo_u)\<lparr>lambda_1 := 1, lambda_2 := 0\<rparr>,
              [Log_train_start, Grad_call demo_x demo_u demo_x demo_u,
               Apply_gradients [Lambda_1, Lambda_2], Log_train_epoch 0 52 1 1, Log_train_end 1])
   \<and> q demo_model = 1
   \<and> q ((fit_setup demo_model demo_x demo_u demo_x demo_u)\<lparr>lambda_1 := 1, lambda_2 := 0\<rparr>) = 1
   \<and> dummy_x_0 ((fit_setup demo_model demo_x demo_u demo_x demo_u)\<lparr>lambda_1 := 1, lambda_2 := 0\<rparr>)
       = \<lparr>ncols = 1, rows = [[1], [1]]\<rparr>
   \<and> dummy_x_1 ((fit_setup demo_model demo_x demo_u demo_x demo_u)\<lparr>lambda_1 := 1, lambda_2 := 0\<rparr>)
       = \<lparr>ncols = 1, rows = [[1], [1]]\<rparr>"
proof -
  have i: "init (\<lambda>l i j. 0) [2] () 2 [- 1] [1] (- 3) demo_alpha demo_beta = Inr demo_model"
    by (simp add: init_def demo_model_def)
  note c = stage_count_clamped [OF i demo_fit_one_epoch, of "[]"]
  from c have "q demo_model = 1"
    "q ((fit_setup demo_model demo_x demo_u demo_x demo_u)\<lparr>lambda_1 := 1, lambda_2 := 0\<rparr>) = 1"
    "dummy_x_0 ((fit_setup demo_model demo_x demo_u demo_x demo_u)\<lparr>lambda_1 := 1, lambda_2 := 0\<rparr>)
       = \<lparr>ncols = 1, rows = [[1], [1]]\<rparr>"
    "dummy_x_1 ((fit_setup demo_model demo_x demo_u demo_x demo_u)\<lparr>lambda_1 := 1, lambda_2 := 0\<rparr>)
       = \<lparr>ncols = 1, rows = [[1], [1]]\<rparr>"
    by (simp_all add: demo_x_def tensor_eval)
  with i demo_fit_one_epoch show ?thesis by blast
qed

subsection \<open>The training driver\<close>

lemma grad_succeeds:
  "loss D s x0 u0 x1 u1 = Inr v
     \<Longrightarrow> grad D G s x0 u0 x1 u1
           = Inr (v, map (G (\<lambda>s'. loss D s' x0 u0 x1 u1) s) (wrap_training_variables s))"
  by (simp add: grad_def bindE_Inr)

lemma wrap_training_variables_sources:
  "wrap_training_variables s = spec_sources (U_model s)"
  by (simp add: wrap_training_variables_def trainable_variables_def spec_sources_def)

lemma zip_map_same: "zip (map f xs) xs = map (\<lambda>x. (f x, x)) xs"
  by (induction xs) simp_all

lemma apply_gradients_epoch:
  "apply_gradients S
     (zip (map (G (\<lambda>r. loss D r x0 u0 x1 u1) s) (wrap_training_variables s))
          (wrap_training_variables s)) s
   = spec_epoch D G S x0 u0 x1 u1 s"
  by (simp add: apply_gradients_def spec_epoch_def zip_map_same wrap_training_variables_sources)

lemma spec_epoch_fields:
  "x_0 (spec_epoch D G S x0 u0 x1 u1 s) = x_0 s"
  "u_0 (spec_epoch D G S x0 u0 x1 u1 s) = u_0 s"
  "x_1 (spec_epoch D G S x0 u0 x1 u1 s) = x_1 s"
  "u_1 (spec_epoch D G S x0 u0 x1 u1 s) = u_1 s"
  by (simp_all add: spec_epoch_def split: prod.splits)

text \<open>One epoch of the loop, when its loss can be computed.\<close>

lemma train_epoch:
  assumes "K \<noteq> 0"
      and "x_0 s = x0" and "u_0 s = u0" and "x_1 s = x1" and "u_1 s = u1"
      and "loss D s x0 u0 x1 u1 = Inr v"
  shows "train D G S K (e # es) (s, tr)
           = train D G S K es
               (spec_epoch D G S x0 u0 x1 u1 s, tr @ spec_segment D G S x0 u0 x1 u1 K e s)"
proof -
  have g: "grad D G s x0 u0 x1 u1
             = Inr (v, map (G (\<lambda>r. loss D r x0 u0 x1 u1) s) (wrap_training_variables s))"
    using assms(6) by (rule grad_succeeds)
  have vs: "map snd (zip (map (G (\<lambda>r. loss D r x0 u0 x1 u1) s) (wrap_training_variables s))
                         (wrap_training_variables s)) = spec_sources (U_model s)"
    by (simp add: zip_map_same comp_def wrap_training_variables_sources)
  show ?thesis
    using assms(1)
    by (simp add: g bindE_Inr Let_def vs apply_gradients_epoch get_params_def
        spec_segment_def assms(2-6))
qed

lemma train_refines:
  assumes "K \<noteq> 0"
  shows "x_0 s = x0 \<Longrightarrow> u_0 s = u0 \<Longrightarrow> x_1 s = x1 \<Longrightarrow> u_1 s = u1
     \<Longrightarrow> (\<And>k. k < m \<Longrightarrow> \<exists>v. loss D ((spec_epoch D G S x0 u0 x1 u1 ^^ k) s) x0 u0 x1 u1 = Inr v)
     \<Longrightarrow> train D G S K (map int [n..<n + m]) (s, tr)
           = Inr ((spec_epoch D G S x0 u0 x1 u1 ^^ m) s,
                  tr @ concat (map (\<lambda>k. spec_segment D G S x0 u0 x1 u1 K (int (n + k))
                                          ((spec_epoch D G S x0 u0 x1 u1 ^^ k) s))
                                [0..<m]))"
proof (induction m arbitrary: n s tr)
  case 0
  then show ?case by simp
next
  case (Suc m)
  let ?E = "spec_epoch D G S x0 u0 x1 u1"
  from Suc.prems(5) [of 0] obtain v where v: "loss D s x0 u0 x1 u1 = Inr v"
    by auto
  have later: "\<exists>v. loss D ((?E ^^ k) (?E s)) x0 u0 x1 u1 = Inr v" if "k < m" for k
    using Suc.prems(5) [of "Suc k"] that by (simp add: funpow_swap1)
  have es: "map int [n..<n + Suc m] = int n # map int [Suc n..<Suc n + m]"
    by (simp add: upt_conv_Cons)
  have segs: "map (\<lambda>k. spec_segment D G S x0 u0 x1 u1 K (int (n + k)) ((?E ^^ k) s)) [0..<Suc m]
      = spec_segment D G S x0 u0 x1 u1 K (int n) s
        # map (\<lambda>k. spec_segment D G S x0 u0 x1 u1 K (int (Suc n + k)) ((?E ^^ k) (?E s))) [0..<m]"
    by (simp add: upt_conv_Cons map_Suc_upt [symmetric] funpow_swap1 comp_def ac_simps
        del: upt_Suc)
  have "train D G S K (map int [n..<n + Suc m]) (s, tr)
          = train D G S K (map int [Suc n..<Suc n + m])
              (?E s, tr @ spec_segment D G S x0 u0 x1 u1 K (int n) s)"
    unfolding es using assms Suc.prems(1-4) v by (rule train_epoch)
  also have "\<dots> = Inr ((?E ^^ m) (?E s),
      (tr @ spec_segment D G S x0 u0 x1 u1 K (int n) s)
      @ concat (map (\<lambda>k. spec_segment D G S x0 u0 x1 u1 K (int (Suc n + k)) ((?E ^^ k) (?E s)))
                  [0..<m]))"
    using Suc.prems(1-4) later by (intro Suc.IH) (simp_all add: spec_epoch_fields)
  finally show ?case
    unfolding segs by (simp add: funpow_swap1)
qed

lemma train_counts:
  "train D G S K es (s, tr) = Inr (s', tr')
     \<Longrightarrow> length (filter is_Grad_call tr') = length (filter is_Grad_call tr) + length es
       \<and> length (filter is_Apply_gradients tr') = length (filter is_Apply_gradients tr) + length es"
proof (induction es arbitrary: s tr)
  case Nil
  then show ?case by simp
next
  case (Cons e es)
  from Cons.prems show ?case
    by (auto simp: bindE_def Let_def split: sum.splits prod.splits if_splits dest!: Cons.IH)
qed

text \<open>
  Claim C4, as the code has it. A call of \<open>fit\<close> with a logging interval other
  than 0, in which the loss of every epoch can be computed, returns after exactly
  \<open>epochs\<close> epochs (none when \<open>epochs\<close> is negative): the object it returns is the
  one set up from the data and then changed \<open>epochs\<close> times by one epoch of the
  specification, and its trace is the start of training, then for each epoch in
  order one gradient computation on the whole of \<open>x0, u0, x1, u1\<close>, one update of
  the optimizer on all weights followed by \<open>lambda_1\<close> and \<open>lambda_2\<close> and the
  progress report when it is due, then the end of training. No test on the loss
  ends the loop earlier.
\<close>

theorem fit_runs_fixed_epochs:
  assumes "log_epochs \<noteq> 0"
      and "\<And>k. k < nat epochs \<Longrightarrow>
             \<exists>v. loss D ((spec_epoch D tape_gradient step x0 u0 x1 u1 ^^ k)
                            (fit_setup self x0 u0 x1 u1)) x0 u0 x1 u1 = Inr v"
  shows "\<exists>tr.
           fit D tape_gradient step self x0 u0 x1 u1 epochs log_epochs
             = Inr ((spec_epoch D tape_gradient step x0 u0 x1 u1 ^^ nat epochs)
                      (fit_setup self x0 u0 x1 u1), tr)
         \<and> tr = Log_train_start
                # concat (map (\<lambda>k. spec_segment D tape_gradient step x0 u0 x1 u1 log_epochs (int k)
                                       ((spec_epoch D tape_gradient step x0 u0 x1 u1 ^^ k)
                                          (fit_setup self x0 u0 x1 u1)))
                            [0..<nat epochs])
                @ [Log_train_end epochs]
         \<and> length (filter is_Grad_call tr) = nat epochs
         \<and> length (filter is_Apply_gradients tr) = nat epochs"
proof -
  let ?E = "spec_epoch D tape_gradient step x0 u0 x1 u1"
  let ?s0 = "fit_setup self x0 u0 x1 u1"
  let ?segs = "concat (map (\<lambda>k. spec_segment D tape_gradient step x0 u0 x1 u1 log_epochs (int k)
                                   ((?E ^^ k) ?s0)) [0..<nat epochs])"
  have "train D tape_gradient step log_epochs (map int [0..<0 + nat epochs])
          (?s0, [Log_train_start])
        = Inr ((?E ^^ nat epochs) ?s0,
               [Log_train_start]
               @ concat (map (\<lambda>k. spec_segment D tape_gradient step x0 u0 x1 u1 log_epochs
                                      (int (0 + k)) ((?E ^^ k) ?s0)) [0..<nat epochs]))"
  proof (rule train_refines [OF assms(1)])
    show "x_0 ?s0 = x0" "u_0 ?s0 = u0" "x_1 ?s0 = x1" "u_1 ?s0 = u1"
      by (simp_all add: fit_setup_def)
    show "\<exists>v. loss D ((?E ^^ k) ?s0) x0 u0 x1 u1 = Inr v" if "k < nat epochs" for k
      using that by (rule assms(2))
  qed
  then have t: "train D tape_gradient step log_epochs (map int [0..<nat epochs])
                  (?s0, [Log_train_start])
                = Inr ((?E ^^ nat epochs) ?s0, Log_train_start # ?segs)"
    by simp
  from train_counts [OF t]
  have counts: "length (filter is_Grad_call (Log_train_start # ?segs)) = nat epochs"
    "length (filter is_Apply_gradients (Log_train_start # ?segs)) = nat epochs"
    by simp_all
  have "fit D tape_gradient step self x0 u0 x1 u1 epochs log_epochs
          = Inr ((?E ^^ nat epochs) ?s0, Log_train_start # ?segs @ [Log_train_end epochs])"
    by (simp add: fit_def t bindE_Inr)
  moreover have "length (filter is_Grad_call (Log_train_start # ?segs @ [Log_train_end epochs]))
                   = nat epochs"
    "length (filter is_Apply_gradients (Log_train_start # ?segs @ [Log_train_end epochs]))
       = nat epochs"
    using counts by simp_all
  ultimately show ?thesis by blast
qed

lemmas predictor_eval = loss_def U_0_model_def U_1_model_def autograd_def bindE_def Let_def
  model_call.simps dense_call_def dense_affine_def tf_tanh_def
  tf_mul_def tf_sub_def tf_add_def np_sub_def broadcast_def bdim_def bidx_def smul_def
  tf_matmul_def np_T_def tf_square_def tf_reduce_sum_def

lemma demo_loss_start:
  "loss demo_line (fit_setup demo_trainee demo_points demo_obs demo_points demo_obs)
     demo_points demo_obs demo_points demo_obs = Inr 10"
  by (simp add: fit_setup_def predictor_eval demo_defs tensor_eval)

lemma demo_first_epoch:
  "spec_epoch demo_line (\<lambda>f s v. v) demo_update demo_points demo_obs demo_points demo_obs
     (fit_setup demo_trainee demo_points demo_obs demo_points demo_obs)
   = (fit_setup demo_trainee demo_points demo_obs demo_points demo_obs)
       \<lparr>optimizer := 1,
        U_model := [\<lparr>kernel = \<lparr>ncols = 1, rows = [[1]]\<rparr>, bias = [1]\<rparr>],
        lambda_1 := 4, lambda_2 := 0\<rparr>"
  by (simp add: spec_epoch_def spec_sources_def fit_setup_def demo_defs tensor_eval)

lemma demo_loss_second:
  "\<exists>v. loss demo_line
         ((fit_setup demo_trainee demo_points demo_obs demo_points demo_obs)
            \<lparr>optimizer := 1,
             U_model := [\<lparr>kernel = \<lparr>ncols = 1, rows = [[1]]\<rparr>, bias = [1]\<rparr>],
             lambda_1 := 4, lambda_2 := 0\<rparr>)
         demo_points demo_obs demo_points demo_obs = Inr v"
  by (simp add: fit_setup_def predictor_eval demo_defs tensor_eval)

lemma train_zero_interval:
  "loss D s (x_0 s) (u_0 s) (x_1 s) (u_1 s) = Inr v
     \<Longrightarrow> train D G S 0 (e # es) (s, tr) = Inl ZeroDivisionError"
  by (simp add: grad_succeeds bindE_Inr Let_def)

lemma spec_sources_one_layer: "spec_sources [L] = [Kernel 0, Bias 0, Lambda_1, Lambda_2]"
  by (simp add: spec_sources_def)

theorem fit_runs_fixed_epochs_witness:
  "(2 :: int) \<noteq> 0
   \<and> loss demo_line (fit_setup demo_trainee demo_points demo_obs demo_points demo_obs)
         demo_points demo_obs demo_points demo_obs = Inr 10
   \<and> (\<exists>v. loss demo_line
              (spec_epoch demo_line (\<lambda>f s v. v) demo_update demo_points demo_obs demo_points demo_obs
                 (fit_setup demo_trainee demo_points demo_obs demo_points demo_obs))
              demo_points demo_obs demo_points demo_obs = Inr v)
   \<and> fit demo_line (\<lambda>f s v. v) demo_update demo_trainee demo_points demo_obs demo_points demo_obs
         2 2
       = Inr ((fit_setup demo_trainee demo_points demo_obs demo_points demo_obs)
                \<lparr>optimizer := 2,
                 U_model := [\<lparr>kernel = \<lparr>ncols = 1, rows = [[1]]\<rparr>, bias = [2]\<rparr>],
                 lambda_1 := 8, lambda_2 := 6\<rparr>,
              [Log_train_start,
               Grad_call demo_points demo_obs demo_points demo_obs,
               Apply_gradients [Kernel 0, Bias 0, Lambda_1, Lambda_2],
               Log_train_epoch 0 10 4 1,
               Grad_call demo_points demo_obs demo_points demo_obs,
               Apply_gradients [Kernel 0, Bias 0, Lambda_1, Lambda_2],
               Log_train_end 2])"
proof -
  let ?E = "spec_epoch demo_line (\<lambda>f s v. v) demo_update demo_points demo_obs demo_points demo_obs"
  let ?s0 = "fit_setup demo_trainee demo_points demo_obs demo_points demo_obs"
  let ?seg = "spec_segment demo_line (\<lambda>f s v. v) demo_update demo_points demo_obs
                demo_points demo_obs 2"
  let ?head = "[Grad_call demo_points demo_obs demo_points demo_obs,
                Apply_gradients [Kernel 0, Bias 0, Lambda_1, Lambda_2]]"
  have k: "(2 :: int) \<noteq> 0" by simp
  have l1: "\<exists>v. loss demo_line (?E ?s0) demo_points demo_obs demo_points demo_obs = Inr v"
    unfolding demo_first_epoch by (rule demo_loss_second)
  have h: "\<exists>v. loss demo_line ((?E ^^ k) ?s0) demo_points demo_obs demo_points demo_obs = Inr v"
    if "k < nat 2" for k
  proof -
    from that have "k = 0 \<or> k = 1" by auto
    then show ?thesis using demo_loss_start l1 by auto
  qed
  have e2: "?E (?E ?s0) = ?s0\<lparr>optimizer := 2,
                 U_model := [\<lparr>kernel = \<lparr>ncols = 1, rows = [[1]]\<rparr>, bias = [2]\<rparr>],
                 lambda_1 := 8, lambda_2 := 6\<rparr>"
    unfolding demo_first_epoch
    by (simp add: spec_epoch_def spec_sources_def fit_setup_def demo_defs tensor_eval)
  have net0: "U_model ?s0 = [\<lparr>kernel = \<lparr>ncols = 1, rows = [[1]]\<rparr>, bias = [0]\<rparr>]"
    by (simp add: fit_setup_def demo_trainee_def demo_net_def)
  have seg0: "?seg 0 ?s0 = ?head @ [Log_train_epoch 0 10 4 1]"
    unfolding spec_segment_def demo_loss_start demo_first_epoch net0 spec_sources_one_layer
    by simp
  have seg1: "?seg 1 (?E ?s0) = ?head"
    unfolding spec_segment_def demo_first_epoch
    by (simp add: spec_sources_one_layer)
  have n2: "nat 2 = Suc (Suc 0)" by simp
  from fit_runs_fixed_epochs [of 2 2 demo_line "\<lambda>f s v. v" demo_update
      demo_points demo_obs demo_points demo_obs demo_trainee, OF k h]
  have "fit demo_line (\<lambda>f s v. v) demo_update demo_trainee demo_points demo_obs demo_points demo_obs
          2 2
        = Inr ((?E ^^ Suc (Suc 0)) ?s0,
               Log_train_start
               # concat (map (\<lambda>k. ?seg (int k) ((?E ^^ k) ?s0)) [0..<Suc (Suc 0)])
               @ [Log_train_end 2])"
    unfolding n2 by blast
  then have "fit demo_line (\<lambda>f s v. v) demo_update demo_trainee demo_points demo_obs
               demo_points demo_obs 2 2
        = Inr (?E (?E ?s0), Log_train_start # (?seg 0 ?s0 @ ?seg 1 (?E ?s0)) @ [Log_train_end 2])"
    by simp
  then have "fit demo_line (\<lambda>f s v. v) demo_update demo_trainee demo_points demo_obs
               demo_points demo_obs 2 2
       = Inr (?s0\<lparr>optimizer := 2,
                 U_model := [\<lparr>kernel = \<lparr>ncols = 1, rows = [[1]]\<rparr>, bias = [2]\<rparr>],
                 lambda_1 := 8, lambda_2 := 6\<rparr>,
              [Log_train_start,
               Grad_call demo_points demo_obs demo_points demo_obs,
               Apply_gradients [Kernel 0, Bias 0, Lambda_1, Lambda_2],
               Log_train_epoch 0 10 4 1,
               Grad_call demo_points demo_obs demo_points demo_obs,
               Apply_gradients [Kernel 0, Bias 0, Lambda_1, Lambda_2],
               Log_train_end 2])"
    unfolding e2 seg0 seg1 by simp
  with k demo_loss_start l1 show ?thesis by blast
qed

text \<open>
  Claim C4 as stated fails: with the logging interval 0 a call for 2 epochs
  raises \<open>ZeroDivisionError\<close> at the test \<open>epoch % log_epochs\<close> of its first
  epoch, and so does not run 2 epochs.
\<close>

theorem fit_runs_fixed_epochs_counterexample:
  "fit demo_line (\<lambda>f s v. v) demo_update demo_trainee demo_points demo_obs demo_points demo_obs
     2 0 = Inl ZeroDivisionError"
proof -
  let ?s0 = "fit_setup demo_trainee demo_points demo_obs demo_points demo_obs"
  have "loss demo_line ?s0 (x_0 ?s0) (u_0 ?s0) (x_1 ?s0) (u_1 ?s0) = Inr 10"
    using demo_loss_start by (simp add: fit_setup_def)
  then have "train demo_line (\<lambda>f s v. v) demo_update 0 (0 # [1]) (?s0, [Log_train_start])
               = Inl ZeroDivisionError"
    by (rule train_zero_interval)
  moreover have "map int [0..<nat 2] = 0 # [1]"
    by (simp add: upt_rec)
  ultimately show ?thesis
    by (simp only: fit_def bindE_Inl)
qed

end
